theory Spec2Isabelle
  imports Main "HOL-Library.Sublist"
begin

section \<open>Context cache (getCachedContextFiles)\<close>

text \<open>
  The four named documents served to the prompt builder (interface ContextFiles).
\<close>

record ContextFiles =
  product :: string
  contact :: string
  privacy :: string
  detail :: string

text \<open>
  interface CachedContext. Times are the millisecond counts of Date.now().
\<close>

record CachedContext =
  data :: ContextFiles
  lastModified :: int
  expires :: int

definition CACHE_TTL :: int where
  "CACHE_TTL = 5 * 60 * 1000"

text \<open>
  A value thrown by JavaScript code, or the reason of a rejected promise.
\<close>

datatype js_error = JsError string

text \<open>
  loadFunction has type () => Promise<ContextFiles | null>. Awaiting it either
  yields the documents (Inr (Some d)), yields null (Inr None), or throws because the
  promise was rejected (Inl e). The loader works on the world outside the cache (files,
  network), which the model threads through as a state of type 'w: an invocation of
  the loader is the only way getCachedContextFiles can change that state.
\<close>

type_synonym 'w loader = "'w \<Rightarrow> (js_error + ContextFiles option) \<times> 'w"

text \<open>
  getCachedContextFiles, with the module variable contextCache passed in and returned,
  and the value of Date.now() as the argument now. The function has no try/catch, so
  the exception raised by await loadFunction() leaves it: the returned promise is
  rejected (Inl e) and the assignment to contextCache is not reached. An object is
  always truthy, so !freshData holds exactly for null. The model runs one call at a
  time; calls interleaved at the await are not modelled.
\<close>

definition getCachedContextFiles ::
  "CachedContext option \<Rightarrow> int \<Rightarrow> 'w loader \<Rightarrow> 'w
    \<Rightarrow> (js_error + ContextFiles option) \<times> CachedContext option \<times> 'w" where
  "getCachedContextFiles contextCache now loadFunction w =
     (if (case contextCache of None \<Rightarrow> False | Some c \<Rightarrow> now < expires c)
      then (Inr (map_option data contextCache), contextCache, w)
      else
        (case loadFunction w of
           (Inl e, w') \<Rightarrow> (Inl e, contextCache, w')
         | (Inr None, w') \<Rightarrow>
             (case contextCache of
                Some c \<Rightarrow> (Inr (Some (data c)), contextCache, w')
              | None \<Rightarrow> (Inr None, contextCache, w'))
         | (Inr (Some freshData), w') \<Rightarrow>
             (Inr (Some freshData),
              Some \<lparr>data = freshData, lastModified = now, expires = now + CACHE_TTL\<rparr>,
              w')))"

text \<open>clearContextCache: the module variable becomes null.\<close>

definition clearContextCache :: "CachedContext option \<Rightarrow> CachedContext option" where
  "clearContextCache contextCache = None"

section \<open>JavaScript strings\<close>

text \<open>
  A JavaScript string is a sequence of UTF-16 code units. The model takes the 8-bit
  characters of HOL as the code units U+0000 to U+00FF, so length, substring and
  includes count and compare code units as the source does, and the character classes
  below are the ECMAScript ones cut down to that range.
\<close>

definition isSpace :: "char \<Rightarrow> bool" where
  \<comment> \<open>the class \s and the white space removed by trim(): TAB, LF, VT, FF, CR, SP, NBSP\<close>
  "isSpace c = (of_char c \<in> {9, 10, 11, 12, 13, 32, 160 :: nat})"

definition isDigit :: "char \<Rightarrow> bool" where
  \<comment> \<open>the class \d\<close>
  "isDigit c = (48 \<le> (of_char c :: nat) \<and> (of_char c :: nat) \<le> 57)"

definition isWordChar :: "char \<Rightarrow> bool" where
  \<comment> \<open>the class \w: A-Z, a-z, 0-9 and the underscore\<close>
  "isWordChar c =
     (let n = (of_char c :: nat)
      in (65 \<le> n \<and> n \<le> 90) \<or> (97 \<le> n \<and> n \<le> 122) \<or> (48 \<le> n \<and> n \<le> 57) \<or> n = 95)"

definition toLowerChar :: "char \<Rightarrow> char" where
  \<comment> \<open>A-Z and the upper-case letters U+00C0..U+00DE (U+00D7 is the multiplication sign)\<close>
  "toLowerChar c =
     (let n = (of_char c :: nat)
      in if (65 \<le> n \<and> n \<le> 90) \<or> (192 \<le> n \<and> n \<le> 222 \<and> n \<noteq> 215)
         then char_of (n + 32) else c)"

definition toLowerCase :: "string \<Rightarrow> string" where
  "toLowerCase s = map toLowerChar s"

definition foldCase :: "char \<Rightarrow> char" where
  \<comment> \<open>a regular expression with the i flag compares canonical forms; against the ASCII
      letters of the patterns used here, only the two ASCII cases of a letter match\<close>
  "foldCase c =
     (let n = (of_char c :: nat) in if 65 \<le> n \<and> n \<le> 90 then char_of (n + 32) else c)"

definition startsWith :: "string \<Rightarrow> string \<Rightarrow> bool" where
  "startsWith s p = (take (length p) s = p)"

definition startsWithCI :: "string \<Rightarrow> string \<Rightarrow> bool" where
  \<comment> \<open>the lower-case literal p of an i-flagged pattern matches at the start of s\<close>
  "startsWithCI p s = (map foldCase (take (length p) s) = p)"

fun includesStr :: "string \<Rightarrow> string \<Rightarrow> bool" where
  "includesStr [] t = (t = [])"
| "includesStr (c # cs) t = (startsWith (c # cs) t \<or> includesStr cs t)"

fun includesCI :: "string \<Rightarrow> string \<Rightarrow> bool" where
  "includesCI [] p = (p = [])"
| "includesCI (c # cs) p = (startsWithCI p (c # cs) \<or> includesCI cs p)"

fun join :: "string \<Rightarrow> string list \<Rightarrow> string" where
  "join sep [] = []"
| "join sep [x] = x"
| "join sep (x # y # ys) = x @ sep @ join sep (y # ys)"

definition trim :: "string \<Rightarrow> string" where
  "trim s = rev (dropWhile isSpace (rev (dropWhile isSpace s)))"

text \<open>
  split with a one-character separator: the pieces between the separators, empty
  pieces included; the empty string gives one empty piece.
\<close>

fun split_on :: "char \<Rightarrow> string \<Rightarrow> string list" where
  "split_on sep [] = [[]]"
| "split_on sep (c # cs) =
     (if c = sep then [] # split_on sep cs
      else (case split_on sep cs of [] \<Rightarrow> [[c]] | p # ps \<Rightarrow> (c # p) # ps))"

text \<open>
  split(/\s+/): the pieces between the maximal runs of white space. A string that starts
  (or ends) with white space gives an empty first (or last) piece.
\<close>

function splitWs :: "string \<Rightarrow> string list" where
  "splitWs [] = [[]]"
| "splitWs (c # cs) =
     (if isSpace c then [] # splitWs (dropWhile isSpace cs)
      else (case splitWs cs of [] \<Rightarrow> [[c]] | p # ps \<Rightarrow> (c # p) # ps))"
  by pat_completeness auto
termination
  by (relation "measure length") (auto intro: le_imp_less_Suc length_dropWhile_le)

text \<open>
  replace(/gurtoy-/g, '') and its like: every occurrence of a non-empty literal found in
  one scan from left to right is dropped; the scan goes on after the occurrence.
\<close>

fun removeAll :: "string \<Rightarrow> string \<Rightarrow> string" where
  "removeAll pat [] = []"
| "removeAll pat (c # cs) =
     (if pat \<noteq> [] \<and> startsWith (c # cs) pat then removeAll pat (drop (length pat - 1) cs)
      else c # removeAll pat cs)"

definition parseInt :: "string \<Rightarrow> nat" where
  \<comment> \<open>on a non-empty string of decimal digits, which is all the callers pass\<close>
  "parseInt ds = foldl (\<lambda>n c. 10 * n + (of_char c - 48)) 0 ds"

section \<open>The regular expressions of the source\<close>

text \<open>
  /(\d+)\s*(u1|u2|...)/i tried at the start of s. The digits and the white space are
  taken greedily; giving some of them back cannot help, because a unit word would then
  have to start at a digit or at a white-space character. The alternatives are tried in
  the order written. The result is the pair of the two groups.
\<close>

definition ageMatchAt :: "string list \<Rightarrow> string \<Rightarrow> (string \<times> string) option" where
  "ageMatchAt units s =
     (let digits = takeWhile isDigit s;
          rest = dropWhile isSpace (dropWhile isDigit s)
      in if digits = [] then None
         else (case find (\<lambda>u. startsWithCI u rest) units of
                 None \<Rightarrow> None
               | Some u \<Rightarrow> Some (digits, take (length u) rest)))"

text \<open>match without the g flag: the match at the leftmost position that has one.\<close>

fun ageMatch :: "string list \<Rightarrow> string \<Rightarrow> (string \<times> string) option" where
  "ageMatch units [] = ageMatchAt units []"
| "ageMatch units (c # cs) =
     (case ageMatchAt units (c # cs) of Some m \<Rightarrow> Some m | None \<Rightarrow> ageMatch units cs)"

text \<open>
  The assertion \b between the code unit before a position (None at the start of the
  string) and the rest of the string from that position.
\<close>

definition wordBoundary :: "char option \<Rightarrow> string \<Rightarrow> bool" where
  "wordBoundary prev rest =
     ((case prev of None \<Rightarrow> False | Some c \<Rightarrow> isWordChar c) \<noteq>
      (case rest of [] \<Rightarrow> False | c # _ \<Rightarrow> isWordChar c))"

definition wordAltAt :: "string list \<Rightarrow> char option \<Rightarrow> string \<Rightarrow> bool" where
  \<comment> \<open>/\b(a1|a2|...)\b/i at one position, the alternatives being non-empty words\<close>
  "wordAltAt alts prev s =
     (wordBoundary prev s \<and>
      list_ex (\<lambda>a. startsWithCI a s \<and>
                    wordBoundary (Some (last (take (length a) s))) (drop (length a) s)) alts)"

fun wordAltTest :: "string list \<Rightarrow> char option \<Rightarrow> string \<Rightarrow> bool" where
  "wordAltTest alts prev [] = wordAltAt alts prev []"
| "wordAltTest alts prev (c # cs) =
     (wordAltAt alts prev (c # cs) \<or> wordAltTest alts (Some c) cs)"

definition altTest :: "string list \<Rightarrow> string \<Rightarrow> bool" where
  \<comment> \<open>new RegExp('a1|a2|...', 'i').test(s): some alternative occurs in s\<close>
  "altTest alts s = list_ex (includesCI s) alts"

definition wholeAltTest :: "string list \<Rightarrow> string \<Rightarrow> bool" where
  \<comment> \<open>/^(a1|a2|...)$/i.test(s): s is one of the alternatives, up to ASCII case\<close>
  "wholeAltTest alts s = (map foldCase s \<in> set alts)"

section \<open>Keyword extractor (extractSearchTerms)\<close>

definition searchCategories :: "(string list \<times> string list) list" where
  \<comment> \<open>the object literal categories; Object.entries lists it in the order written\<close>
  "searchCategories =
     [([''car'', ''gaadi'', ''vehicle''], [''car'', ''vehicle'']),
      ([''bike'', ''cycle'', ''bicycle''], [''bike'', ''cycle'']),
      ([''doll'', ''barbie'', ''gudiya''], [''doll'']),
      ([''educational'', ''learning'', ''study''], [''educational'']),
      ([''music'', ''musical'', ''song''], [''musical'']),
      ([''outdoor'', ''bahar''], [''outdoor'', ''ride'']),
      ([''indoor'', ''ghar''], [''indoor'']),
      ([''creative'', ''art'', ''drawing''], [''creative'', ''art''])]"

definition stopWords :: "string list" where
  "stopWords = [''for'', ''and'', ''the'', ''with'', ''can'', ''you'', ''please'', ''want'',
                ''need'', ''looking'', ''good'', ''best'']"

text \<open>The array terms as it stands just before the duplicates are removed.\<close>

definition collectTerms :: "string \<Rightarrow> string list" where
  "collectTerms query =
     (let ageTerms =
            (case ageMatch [''year'', ''month'', ''yr'', ''mo'', ''saal''] query of
               None \<Rightarrow> []
             | Some (digits, unit) \<Rightarrow>
                 (let age = parseInt digits
                  in if age \<le> 2 then [''baby'', ''toddler'']
                     else if age \<le> 5 then [''kids'', ''child'']
                     else [''kids'']));
          boys = (if wordAltTest [''boy'', ''boys'', ''ladka'', ''beta''] None query
                  then [''boys''] else []);
          girls = (if wordAltTest [''girl'', ''girls'', ''ladki'', ''beti''] None query
                   then [''girls''] else []);
          categoryTerms =
            concat (map (\<lambda>(pattern, keywords). if altTest pattern query then keywords else [])
                        searchCategories);
          words = splitWs (filter (\<lambda>c. isWordChar c \<or> isSpace c) query);
          meaningfulWords = filter (\<lambda>w. 3 \<le> length w \<and> \<not> wholeAltTest stopWords w) words
      in ageTerms @ boys @ girls @ categoryTerms @ meaningfulWords)"

text \<open>
  Array.from(new Set(terms)): a Set keeps its members in the order of their first
  insertion, and inserting a member again changes nothing.
\<close>

definition setAdd :: "'a list \<Rightarrow> 'a \<Rightarrow> 'a list" where
  "setAdd members x = (if x \<in> set members then members else members @ [x])"

definition fromSet :: "'a list \<Rightarrow> 'a list" where
  "fromSet terms = foldl setAdd [] terms"

definition extractSearchTerms :: "string \<Rightarrow> string list" where
  "extractSearchTerms query = fromSet (collectTerms query)"

section \<open>Product index builder (buildProductIndex, extractKeywords)\<close>

text \<open>interface ProductMatch; its field keywords is keywordList here.\<close>

record ProductMatch =
  url :: string
  slug :: string
  name :: string
  score :: int
  keywordList :: "string list"

definition categories :: "string list" where
  "categories = [''car'', ''bike'', ''doll'', ''toy'', ''kids'', ''baby'', ''ride'', ''push'',
                 ''scooter'', ''stroller'']"

definition attributes :: "string list" where
  "attributes = [''rechargeable'', ''battery'', ''electric'', ''educational'', ''musical'',
                 ''interactive'']"

definition ageGroups :: "string list" where
  "ageGroups = [''baby'', ''toddler'', ''kids'', ''child'', ''infant'']"

definition colors :: "string list" where
  "colors = [''pink'', ''blue'', ''red'', ''green'', ''yellow'', ''white'', ''black'', ''navy'']"

definition allKeywords :: "string list" where
  "allKeywords = categories @ attributes @ ageGroups @ colors"

definition extractKeywords :: "string \<Rightarrow> string list" where
  "extractKeywords nm =
     (let words = splitWs (toLowerCase nm)
      in filter (\<lambda>word. 2 < length word \<and> (word \<in> set allKeywords \<or> length words \<le> 5)) words)"

definition urlPrefix :: string where
  "urlPrefix = ''https://thegurtoys.com/products/''"

text \<open>
  The body of the loop over the lines that pass the prefix test. pop() gives the last
  piece of the split, and the source's || '' stands in for a missing one.
\<close>

definition productOfUrl :: "string \<Rightarrow> ProductMatch" where
  "productOfUrl u =
     (let slg = (case rev (split_on CHR ''/'' u) of [] \<Rightarrow> [] | piece # _ \<Rightarrow> piece);
          nm = toLowerCase
                 (map (\<lambda>c. if c = CHR ''-'' then CHR '' '' else c) (removeAll ''gurtoy-'' slg))
      in \<lparr>url = u, slug = slg, name = nm, score = 0, keywordList = extractKeywords nm\<rparr>)"

definition buildProductIndex :: "string \<Rightarrow> ProductMatch list" where
  "buildProductIndex productData =
     (let lines = filter (\<lambda>line. trim line \<noteq> []) (split_on (CHR 0x0A) productData)
      in map productOfUrl (filter (\<lambda>u. startsWith u urlPrefix) lines))"

section \<open>Relevance scorer (calculateRelevanceScore)\<close>

definition productText :: "ProductMatch \<Rightarrow> string" where
  "productText p = toLowerCase (name p @ '' '' @ join '' '' (keywordList p))"

definition popularProducts :: "string list" where
  "popularProducts = [''car'', ''bike'', ''doll'', ''educational'', ''stroller'', ''scooter'']"

text \<open>One round of the loop over the search terms: the three additions to score.\<close>

definition termStep :: "ProductMatch \<Rightarrow> int \<Rightarrow> string \<Rightarrow> int" where
  "termStep p sc term =
     (let s1 = (if includesStr (productText p) term then sc + 10 else sc);
          s2 = (if includesStr (productText p) (take 4 term) then s1 + 3 else s1)
      in if term \<in> set (keywordList p) then s2 + 15 else s2)"

text \<open>One round of the loop over popularProducts.\<close>

definition popularStep :: "ProductMatch \<Rightarrow> int \<Rightarrow> string \<Rightarrow> int" where
  "popularStep p sc popular = (if includesStr (productText p) popular then sc + 2 else sc)"

definition calculateRelevanceScore :: "string list \<Rightarrow> ProductMatch \<Rightarrow> int" where
  "calculateRelevanceScore searchTerms p =
     foldl (popularStep p) (foldl (termStep p) 0 searchTerms) popularProducts"

section \<open>Product matcher (findRelevantProducts)\<close>

text \<open>The module variables productIndex and indexLastUpdated.\<close>

record IndexState =
  productIndex :: "ProductMatch list option"
  indexLastUpdated :: int

definition initialIndexState :: IndexState where
  "initialIndexState = \<lparr>productIndex = None, indexLastUpdated = 0\<rparr>"

definition INDEX_CACHE_TTL :: int where
  "INDEX_CACHE_TTL = 10 * 60 * 1000"

text \<open>
  The first statement of findRelevantProducts: the index is rebuilt when there is none
  (null; an empty array is an index) or when it is older than the TTL.
\<close>

definition refreshIndex :: "string \<Rightarrow> int \<Rightarrow> IndexState \<Rightarrow> IndexState" where
  "refreshIndex productData now st =
     (if productIndex st = None \<or> now - indexLastUpdated st > INDEX_CACHE_TTL
      then \<lparr>productIndex = Some (buildProductIndex productData), indexLastUpdated = now\<rparr>
      else st)"

definition indexEntries :: "IndexState \<Rightarrow> ProductMatch list" where
  "indexEntries st = (case productIndex st of None \<Rightarrow> [] | Some entries \<Rightarrow> entries)"

definition scoreProducts :: "string list \<Rightarrow> ProductMatch list \<Rightarrow> ProductMatch list" where
  \<comment> \<open>the array scoredProducts\<close>
  "scoreProducts searchTerms entries =
     map (\<lambda>p. p\<lparr>score := calculateRelevanceScore searchTerms p\<rparr>) entries"

text \<open>
  sort((a, b) => b.score - a.score): Array.prototype.sort is stable (ECMAScript 2019),
  so entries of equal score keep their order; the scores are integers.
\<close>

definition sortByScoreDesc :: "ProductMatch list \<Rightarrow> ProductMatch list" where
  "sortByScoreDesc ps = sort_key (\<lambda>p. - score p) ps"

text \<open>
  slice(0, limit) for an integral limit: a negative limit counts from the end of the
  array. (A fractional limit is first truncated towards zero; limit is an integer here.)
\<close>

definition sliceTo :: "int \<Rightarrow> 'a list \<Rightarrow> 'a list" where
  "sliceTo limit xs =
     (if limit < 0 then take (nat (int (length xs) + limit)) xs else take (nat limit) xs)"

text \<open>
  findRelevantProducts, with the value of Date.now() and the module state passed in and
  the state returned. A call that leaves out limit is the call with limit = 3.
\<close>

definition findRelevantProducts ::
  "string \<Rightarrow> string \<Rightarrow> int \<Rightarrow> int \<Rightarrow> IndexState \<Rightarrow> ProductMatch list \<times> IndexState" where
  "findRelevantProducts query productData limit now st =
     (let st' = refreshIndex productData now st;
          searchTerms = extractSearchTerms (toLowerCase query)
      in if searchTerms = [] then ([], st')
         else (sliceTo limit
                 (sortByScoreDesc
                    (filter (\<lambda>p. 0 < score p) (scoreProducts searchTerms (indexEntries st')))),
               st'))"

section \<open>Conversation memory formatter (formatChatHistoryForAI)\<close>









section \<open>Properties of the context cache\<close>

lemma getCachedContextFiles_valid:
  "now < expires c \<Longrightarrow>
   getCachedContextFiles (Some c) now loadFunction w = (Inr (Some (data c)), Some c, w)"
  by (simp add: getCachedContextFiles_def)

lemma getCachedContextFiles_null_stale:
  "\<not> now < expires c \<Longrightarrow> loadFunction w = (Inr None, w') \<Longrightarrow>
   getCachedContextFiles (Some c) now loadFunction w = (Inr (Some (data c)), Some c, w')"
  by (simp add: getCachedContextFiles_def)

lemma getCachedContextFiles_null_empty:
  "loadFunction w = (Inr None, w') \<Longrightarrow>
   getCachedContextFiles None now loadFunction w = (Inr None, None, w')"
  by (simp add: getCachedContextFiles_def)

lemma getCachedContextFiles_reject:
  "\<not> (case contextCache of None \<Rightarrow> False | Some c \<Rightarrow> now < expires c) \<Longrightarrow>
   loadFunction w = (Inl e, w') \<Longrightarrow>
   getCachedContextFiles contextCache now loadFunction w = (Inl e, contextCache, w')"
  by (simp add: getCachedContextFiles_def)

lemma getCachedContextFiles_fresh:
  "\<not> (case contextCache of None \<Rightarrow> False | Some c \<Rightarrow> now < expires c) \<Longrightarrow>
   loadFunction w = (Inr (Some d), w') \<Longrightarrow>
   getCachedContextFiles contextCache now loadFunction w =
     (Inr (Some d), Some \<lparr>data = d, lastModified = now, expires = now + CACHE_TTL\<rparr>, w')"
  by (simp add: getCachedContextFiles_def)

text \<open>
  C2. A first call whose loader succeeds stores the loaded documents and returns them;
  a second call made once that entry has expired, with a loader that returns null,
  returns the same documents and leaves the cache as it was. With no entry at all, a
  loader that returns null makes the call return null.
\<close>

theorem stale_fallback:
  "(\<not> (case cache0 of None \<Rightarrow> False | Some c \<Rightarrow> now1 < expires c) \<and>
    load1 w0 = (Inr (Some d), w1) \<and>
    now1 + CACHE_TTL \<le> now2 \<and>
    load2 w1 = (Inr None, w2)
    \<longrightarrow> (case getCachedContextFiles cache0 now1 load1 w0 of
          (r1, cache1, w1') \<Rightarrow>
             r1 = Inr (Some d) \<and> w1' = w1 \<and>
             getCachedContextFiles cache1 now2 load2 w1' = (r1, cache1, w2))) \<and>
   (load2 w = (Inr None, w') \<longrightarrow>
      getCachedContextFiles None now load2 w = (Inr None, None, w'))"
proof (intro conjI impI)
  assume a: "\<not> (case cache0 of None \<Rightarrow> False | Some c \<Rightarrow> now1 < expires c) \<and>
    load1 w0 = (Inr (Some d), w1) \<and>
    now1 + CACHE_TTL \<le> now2 \<and>
    load2 w1 = (Inr None, w2)"
  let ?c = "\<lparr>data = d, lastModified = now1, expires = now1 + CACHE_TTL\<rparr>"
  from a have first: "getCachedContextFiles cache0 now1 load1 w0 = (Inr (Some d), Some ?c, w1)"
    by (simp add: getCachedContextFiles_fresh)
  from a have expired: "\<not> now2 < expires ?c"
    by simp
  from a have null: "load2 w1 = (Inr None, w2)"
    by simp
  have "getCachedContextFiles (Some ?c) now2 load2 w1 = (Inr (Some (data ?c)), Some ?c, w2)"
    using expired null by (rule getCachedContextFiles_null_stale)
  with first show "case getCachedContextFiles cache0 now1 load1 w0 of
          (r1, cache1, w1') \<Rightarrow>
             r1 = Inr (Some d) \<and> w1' = w1 \<and>
             getCachedContextFiles cache1 now2 load2 w1' = (r1, cache1, w2)"
    by simp
next
  assume "load2 w = (Inr None, w')"
  then show "getCachedContextFiles None now load2 w = (Inr None, None, w')"
    by (rule getCachedContextFiles_null_empty)
qed

theorem stale_fallback_witness:
  "(case getCachedContextFiles None 0
           (Pair (Inr (Some \<lparr>product = ''catalog'', contact = ''mail'', privacy = ''policy'',
                               detail = ''about''\<rparr>)) \<circ> Suc) (0::nat) of
      (r1, cache1, w1') \<Rightarrow>
         r1 = Inr (Some \<lparr>product = ''catalog'', contact = ''mail'', privacy = ''policy'',
                          detail = ''about''\<rparr>) \<and>
         w1' = 1 \<and>
         getCachedContextFiles cache1 300000 (Pair (Inr None) \<circ> Suc) w1' = (r1, cache1, 2)) \<and>
   getCachedContextFiles None 7 (Pair (Inr None) \<circ> Suc) (1::nat) = (Inr None, None, 2)"
  using stale_fallback [where ?cache0.0 = None and ?now1.0 = 0
      and ?load1.0 = "Pair (Inr (Some \<lparr>product = ''catalog'', contact = ''mail'',
                                          privacy = ''policy'', detail = ''about''\<rparr>)) \<circ> Suc"
      and ?w0.0 = "0::nat"
      and d = "\<lparr>product = ''catalog'', contact = ''mail'', privacy = ''policy'',
                detail = ''about''\<rparr>"
      and ?w1.0 = 1 and ?now2.0 = 300000 and ?load2.0 = "Pair (Inr None) \<circ> Suc"
      and ?w2.0 = 2 and w = 1 and w' = 2 and now = 7]
  by (simp add: CACHE_TTL_def)

text \<open>
  C3, as the code has it. When the cached entry is absent or expired and the loader
  fails, the cache is left exactly as it was. A loader that returns null makes the call
  return the stale documents if there is an entry and null otherwise; a loader whose
  promise is rejected makes the call itself reject with the same error, since nothing
  in getCachedContextFiles catches it.
\<close>

theorem loader_failure_outcome:
  assumes "\<not> (case contextCache of None \<Rightarrow> False | Some c \<Rightarrow> now < expires c)"
    and "loadFunction w = (out, w')"
    and "\<forall>d. out \<noteq> Inr (Some d)"
  shows "getCachedContextFiles contextCache now loadFunction w =
           ((case out of Inl e \<Rightarrow> Inl e | Inr _ \<Rightarrow> Inr (map_option data contextCache)),
            contextCache, w')"
proof (cases out)
  case (Inl e)
  with assms(1,2) show ?thesis
    by (simp add: getCachedContextFiles_reject)
next
  case (Inr r)
  with assms(3) have "r = None"
    by (cases r) simp_all
  with Inr assms(1,2) show ?thesis
    by (cases contextCache) (simp_all add: getCachedContextFiles_def)
qed

theorem loader_failure_outcome_witness:
  "getCachedContextFiles
      (Some \<lparr>data = \<lparr>product = ''catalog'', contact = ''mail'', privacy = ''policy'',
                       detail = ''about''\<rparr>,
             lastModified = 0, expires = 300000\<rparr>)
      300000 (Pair (Inl (JsError ''storage unreachable'')) \<circ> Suc) (0::nat) =
     (Inl (JsError ''storage unreachable''),
      Some \<lparr>data = \<lparr>product = ''catalog'', contact = ''mail'', privacy = ''policy'',
                      detail = ''about''\<rparr>,
            lastModified = 0, expires = 300000\<rparr>,
      1) \<and>
   getCachedContextFiles
      (Some \<lparr>data = \<lparr>product = ''catalog'', contact = ''mail'', privacy = ''policy'',
                       detail = ''about''\<rparr>,
             lastModified = 0, expires = 300000\<rparr>)
      300000 (Pair (Inr None) \<circ> Suc) (0::nat) =
     (Inr (Some \<lparr>product = ''catalog'', contact = ''mail'', privacy = ''policy'',
                  detail = ''about''\<rparr>),
      Some \<lparr>data = \<lparr>product = ''catalog'', contact = ''mail'', privacy = ''policy'',
                      detail = ''about''\<rparr>,
            lastModified = 0, expires = 300000\<rparr>,
      1)"
proof -
  let ?c = "\<lparr>data = \<lparr>product = ''catalog'', contact = ''mail'', privacy = ''policy'',
                        detail = ''about''\<rparr>,
              lastModified = 0, expires = 300000\<rparr>"
  have expired: "\<not> (case Some ?c of None \<Rightarrow> False | Some c \<Rightarrow> 300000 < expires c)"
    by simp
  have rejects: "(Pair (Inl (JsError ''storage unreachable'')) \<circ> Suc) (0::nat) =
      (Inl (JsError ''storage unreachable''), 1)"
    by simp
  have nulls: "(Pair (Inr None) \<circ> Suc) (0::nat) = (Inr None, 1)"
    by simp
  have "\<forall>d. (Inl (JsError ''storage unreachable'') :: js_error + ContextFiles option) \<noteq> Inr (Some d)"
    by simp
  from loader_failure_outcome [where loadFunction = "Pair (Inl (JsError ''storage unreachable'')) \<circ> Suc"
      and w = "0::nat", OF expired rejects this]
  have one: "getCachedContextFiles (Some ?c) 300000
      (Pair (Inl (JsError ''storage unreachable'')) \<circ> Suc) (0::nat) =
      (Inl (JsError ''storage unreachable''), Some ?c, 1)"
    by simp
  have "\<forall>d. (Inr None :: js_error + ContextFiles option) \<noteq> Inr (Some d)"
    by simp
  from loader_failure_outcome [where loadFunction = "Pair (Inr None) \<circ> Suc"
      and w = "0::nat", OF expired nulls this]
  have two: "getCachedContextFiles (Some ?c) 300000 (Pair (Inr None) \<circ> Suc) (0::nat) =
      (Inr (Some (data ?c)), Some ?c, 1)"
    by simp
  from one two show ?thesis
    by simp
qed

text \<open>
  C3 as stated fails: with an empty cache and a loader whose promise is rejected, the
  call does not return null but throws the loader's error to its caller.
\<close>

theorem loader_rejection_escapes:
  "getCachedContextFiles None 0 (Pair (Inl (JsError ''storage unreachable''))) () =
     (Inl (JsError ''storage unreachable''), None, ())"
  by (simp add: getCachedContextFiles_def)

text \<open>
  C5. Whenever a first call has returned and left an entry in the cache (in particular
  the entry it has just stored), a second call made before that entry expires returns
  the first call's result again, keeps the cache, and does not run its loader: whatever
  the loader would do, the outside world is left untouched.
\<close>

theorem second_call_within_ttl:
  assumes "getCachedContextFiles cache0 now1 load1 w0 = (Inr r1, Some c, w1)"
    and "now2 < expires c"
  shows "getCachedContextFiles (Some c) now2 load2 w1 = (Inr r1, Some c, w1)"
proof -
  from assms(1) have "r1 = Some (data c)"
    by (auto simp: getCachedContextFiles_def
          split: if_splits option.splits sum.splits prod.splits)
  with assms(2) show ?thesis
    by (simp add: getCachedContextFiles_valid)
qed

theorem second_call_within_ttl_witness:
  "getCachedContextFiles None 1000
      (Pair (Inr (Some \<lparr>product = ''catalog'', contact = ''mail'', privacy = ''policy'',
                          detail = ''about''\<rparr>)) \<circ> Suc) (0::nat) =
     (Inr (Some \<lparr>product = ''catalog'', contact = ''mail'', privacy = ''policy'',
                  detail = ''about''\<rparr>),
      Some \<lparr>data = \<lparr>product = ''catalog'', contact = ''mail'', privacy = ''policy'',
                      detail = ''about''\<rparr>,
            lastModified = 1000, expires = 301000\<rparr>,
      1) \<and>
   getCachedContextFiles
      (Some \<lparr>data = \<lparr>product = ''catalog'', contact = ''mail'', privacy = ''policy'',
                       detail = ''about''\<rparr>,
             lastModified = 1000, expires = 301000\<rparr>)
      300999 (Pair (Inr None) \<circ> Suc) (1::nat) =
     (Inr (Some \<lparr>product = ''catalog'', contact = ''mail'', privacy = ''policy'',
                  detail = ''about''\<rparr>),
      Some \<lparr>data = \<lparr>product = ''catalog'', contact = ''mail'', privacy = ''policy'',
                      detail = ''about''\<rparr>,
            lastModified = 1000, expires = 301000\<rparr>,
      1)"
proof -
  let ?d = "\<lparr>product = ''catalog'', contact = ''mail'', privacy = ''policy'',
             detail = ''about''\<rparr>"
  let ?c = "\<lparr>data = ?d, lastModified = 1000, expires = 301000\<rparr>"
  have first: "getCachedContextFiles None 1000 (Pair (Inr (Some ?d)) \<circ> Suc) (0::nat) =
     (Inr (Some ?d), Some ?c, 1)"
    by (simp add: getCachedContextFiles_def CACHE_TTL_def)
  have within: "300999 < expires ?c"
    by simp
  from first second_call_within_ttl [OF first within, of "Pair (Inr None) \<circ> Suc"]
  show ?thesis
    by simp
qed

section \<open>Properties of the keyword extractor\<close>

lemma fromSet_Nil: "fromSet [] = []"
  by (simp add: fromSet_def)

lemma fromSet_snoc:
  "fromSet (ts @ [t]) = (if t \<in> set (fromSet ts) then fromSet ts else fromSet ts @ [t])"
  by (simp add: fromSet_def setAdd_def)

lemma set_fromSet: "set (fromSet ts) = set ts"
  by (induction ts rule: rev_induct) (auto simp: fromSet_snoc fromSet_Nil)

lemma distinct_fromSet: "distinct (fromSet ts)"
  by (induction ts rule: rev_induct) (auto simp: fromSet_snoc fromSet_Nil)

text \<open>
  The number of members of ts in front of the first occurrence of x is
  length (takeWhile (\<lambda>t. t \<noteq> x) ts): the position at which x is first seen.
\<close>

lemma firstSeen_less: "x \<in> set ts \<Longrightarrow> length (takeWhile (\<lambda>t. t \<noteq> x) ts) < length ts"
  by (induction ts) auto

lemma firstSeen_append:
  "x \<in> set ts \<Longrightarrow> takeWhile (\<lambda>t. t \<noteq> x) (ts @ us) = takeWhile (\<lambda>t. t \<noteq> x) ts"
  by (rule takeWhile_append1 [where x = x]) simp_all

lemma firstSeen_new: "t \<notin> set ts \<Longrightarrow> takeWhile (\<lambda>u. u \<noteq> t) (ts @ [t]) = ts"
  by (subst takeWhile_append2) auto

lemma fromSet_first_seen:
  "sorted_wrt (\<lambda>x y. length (takeWhile (\<lambda>t. t \<noteq> x) ts) < length (takeWhile (\<lambda>t. t \<noteq> y) ts))
     (fromSet ts)"
proof (induction ts rule: rev_induct)
  case Nil
  show ?case by (simp add: fromSet_Nil)
next
  case (snoc t ts)
  have old: "sorted_wrt (\<lambda>x y. length (takeWhile (\<lambda>u. u \<noteq> x) (ts @ [t]))
                              < length (takeWhile (\<lambda>u. u \<noteq> y) (ts @ [t]))) (fromSet ts)"
    using snoc.IH
    by (rule sorted_wrt_mono_rel [rotated]) (simp add: set_fromSet firstSeen_append)
  show ?case
  proof (cases "t \<in> set ts")
    case True
    with old show ?thesis
      by (simp add: fromSet_snoc set_fromSet)
  next
    case False
    have "length (takeWhile (\<lambda>u. u \<noteq> x) (ts @ [t])) < length (takeWhile (\<lambda>u. u \<noteq> t) (ts @ [t]))"
      if "x \<in> set ts" for x
      using that False firstSeen_less [of x ts] by (simp add: firstSeen_append firstSeen_new)
    with old False show ?thesis
      by (simp add: fromSet_snoc set_fromSet sorted_wrt_append)
  qed
qed

lemma extractSearchTerms_example:
  "extractSearchTerms ''car for 3 year old boy'' =
     [''kids'', ''child'', ''boys'', ''car'', ''vehicle'', ''year'', ''old'', ''boy'']"
  by code_simp

text \<open>
  C7. The terms extracted from "car for 3 year old boy" contain kids, child, boys, car
  and vehicle. For every query the result has no duplicates, has exactly the members of
  the collected terms, and lists them in the order in which each is first seen there.
\<close>

theorem extractSearchTerms_dedup:
  "set [''kids'', ''child'', ''boys'', ''car'', ''vehicle'']
     \<subseteq> set (extractSearchTerms ''car for 3 year old boy'') \<and>
   distinct (extractSearchTerms query) \<and>
   set (extractSearchTerms query) = set (collectTerms query) \<and>
   sorted_wrt (\<lambda>x y. length (takeWhile (\<lambda>t. t \<noteq> x) (collectTerms query))
                      < length (takeWhile (\<lambda>t. t \<noteq> y) (collectTerms query)))
     (extractSearchTerms query)"
proof (intro conjI)
  show "set [''kids'', ''child'', ''boys'', ''car'', ''vehicle'']
          \<subseteq> set (extractSearchTerms ''car for 3 year old boy'')"
    by (simp add: extractSearchTerms_example)
  show "distinct (extractSearchTerms query)"
    by (simp add: extractSearchTerms_def distinct_fromSet)
  show "set (extractSearchTerms query) = set (collectTerms query)"
    by (simp add: extractSearchTerms_def set_fromSet)
  show "sorted_wrt (\<lambda>x y. length (takeWhile (\<lambda>t. t \<noteq> x) (collectTerms query))
                      < length (takeWhile (\<lambda>t. t \<noteq> y) (collectTerms query)))
     (extractSearchTerms query)"
    unfolding extractSearchTerms_def by (rule fromSet_first_seen)
qed

section \<open>Properties of the relevance scorer\<close>

text \<open>
  C8. Against the entry named "push car rabbit car for kids" with the keywords car and
  kids, each of the search terms car and kids adds exactly 10 + 3 + 15 to the running
  score, and the loop over the popular words adds exactly 2 (for car, the only popular
  word in the text of the entry). The total is 58, which is at least 47, in whichever
  order the two terms and the two keywords are listed.
\<close>

theorem scorer_example:
  "termStep \<lparr>url = u, slug = s, name = ''push car rabbit car for kids'', score = sc0,
              keywordList = [''car'', ''kids'']\<rparr> sc ''car'' = sc + 10 + 3 + 15 \<and>
   termStep \<lparr>url = u, slug = s, name = ''push car rabbit car for kids'', score = sc0,
              keywordList = [''car'', ''kids'']\<rparr> sc ''kids'' = sc + 10 + 3 + 15 \<and>
   popularStep \<lparr>url = u, slug = s, name = ''push car rabbit car for kids'', score = sc0,
                 keywordList = [''car'', ''kids'']\<rparr> sc ''car'' = sc + 2 \<and>
   foldl (popularStep \<lparr>url = u, slug = s, name = ''push car rabbit car for kids'',
                        score = sc0, keywordList = [''car'', ''kids'']\<rparr>)
         sc popularProducts = sc + 2 \<and>
   calculateRelevanceScore [''car'', ''kids'']
     \<lparr>url = u, slug = s, name = ''push car rabbit car for kids'', score = sc0,
        keywordList = [''car'', ''kids'']\<rparr> = 58 \<and>
   calculateRelevanceScore [''kids'', ''car'']
     \<lparr>url = u, slug = s, name = ''push car rabbit car for kids'', score = sc0,
        keywordList = [''car'', ''kids'']\<rparr> = 58 \<and>
   calculateRelevanceScore [''car'', ''kids'']
     \<lparr>url = u, slug = s, name = ''push car rabbit car for kids'', score = sc0,
        keywordList = [''kids'', ''car'']\<rparr> = 58 \<and>
   calculateRelevanceScore [''kids'', ''car'']
     \<lparr>url = u, slug = s, name = ''push car rabbit car for kids'', score = sc0,
        keywordList = [''kids'', ''car'']\<rparr> = 58 \<and>
   47 \<le> calculateRelevanceScore [''car'', ''kids'']
           \<lparr>url = u, slug = s, name = ''push car rabbit car for kids'', score = sc0,
              keywordList = [''car'', ''kids'']\<rparr>"
  by code_simp

section \<open>Properties of the product index builder\<close>











lemma buildProductIndex_no_prefix:
  "\<forall>line \<in> set (split_on (CHR 0x0A) productData). \<not> startsWith line urlPrefix \<Longrightarrow>
   buildProductIndex productData = []"
  by (simp add: buildProductIndex_def Let_def filter_empty_conv)

lemma sliceTo_Nil: "sliceTo limit [] = []"
  by (simp add: sliceTo_def)

text \<open>
  C4, as the code has it. For every query and limit: when the call rebuilds the index
  (there is none yet, or it is older than the TTL) and no line of the catalog text
  starts with the product URL prefix, the index becomes the empty list and the call
  returns no matches. When there is an index that is not older than the TTL, the
  catalog text is not read: the state is returned as it was, and the matches are those
  of the cached index, whatever the catalog text is.
\<close>

theorem malformed_catalog_by_index_age:
  "((productIndex st = None \<or> INDEX_CACHE_TTL < now - indexLastUpdated st) \<and>
    (\<forall>line \<in> set (split_on (CHR 0x0A) productData). \<not> startsWith line urlPrefix) \<longrightarrow>
      buildProductIndex productData = [] \<and>
      findRelevantProducts query productData limit now st =
        ([], \<lparr>productIndex = Some [], indexLastUpdated = now\<rparr>)) \<and>
   (productIndex st = Some entries \<and> \<not> INDEX_CACHE_TTL < now - indexLastUpdated st \<longrightarrow>
      findRelevantProducts query productData limit now st =
        ((if extractSearchTerms (toLowerCase query) = [] then []
          else sliceTo limit
                 (sortByScoreDesc
                    (filter (\<lambda>p. 0 < score p)
                       (scoreProducts (extractSearchTerms (toLowerCase query)) entries)))),
         st))"
proof (intro conjI impI)
  assume a: "(productIndex st = None \<or> INDEX_CACHE_TTL < now - indexLastUpdated st) \<and>
    (\<forall>line \<in> set (split_on (CHR 0x0A) productData). \<not> startsWith line urlPrefix)"
  then show empty: "buildProductIndex productData = []"
    by (simp add: buildProductIndex_no_prefix)
  with a have "refreshIndex productData now st =
      \<lparr>productIndex = Some [], indexLastUpdated = now\<rparr>"
    by (auto simp: refreshIndex_def)
  then show "findRelevantProducts query productData limit now st =
           ([], \<lparr>productIndex = Some [], indexLastUpdated = now\<rparr>)"
    by (simp add: findRelevantProducts_def Let_def indexEntries_def scoreProducts_def
          sortByScoreDesc_def sliceTo_Nil)
next
  assume "productIndex st = Some entries \<and> \<not> INDEX_CACHE_TTL < now - indexLastUpdated st"
  then have "refreshIndex productData now st = st" and "indexEntries st = entries"
    by (simp_all add: refreshIndex_def indexEntries_def)
  then show "findRelevantProducts query productData limit now st =
        ((if extractSearchTerms (toLowerCase query) = [] then []
          else sliceTo limit
                 (sortByScoreDesc
                    (filter (\<lambda>p. 0 < score p)
                       (scoreProducts (extractSearchTerms (toLowerCase query)) entries)))),
         st)"
    by (simp add: findRelevantProducts_def Let_def)
qed

text \<open>
  C4 as stated fails for a prior state whose index is still within the TTL: the catalog
  text is not read, the index stays as it was and the query is answered from it.
\<close>

theorem cached_index_outlives_catalog:
  "findRelevantProducts ''car'' '''' 3 1000
     \<lparr>productIndex = Some (buildProductIndex ''https://thegurtoys.com/products/gurtoy-car''),
      indexLastUpdated = 0\<rparr> =
   ([\<lparr>url = ''https://thegurtoys.com/products/gurtoy-car'', slug = ''gurtoy-car'',
      name = ''car'', score = 30, keywordList = [''car'']\<rparr>],
    \<lparr>productIndex = Some [\<lparr>url = ''https://thegurtoys.com/products/gurtoy-car'', slug = ''gurtoy-car'',
      name = ''car'', score = 0, keywordList = [''car'']\<rparr>],
      indexLastUpdated = 0\<rparr>)"
  by code_simp

theorem malformed_catalog_by_index_age_witness:
  "findRelevantProducts ''car'' ''no products today'' 3 1000 initialIndexState =
     ([], \<lparr>productIndex = Some [], indexLastUpdated = 1000\<rparr>) \<and>
   findRelevantProducts ''doll'' ''no products today'' 3 600000
     \<lparr>productIndex = Some [\<lparr>url = ''https://thegurtoys.com/products/gurtoy-doll-pink'',
                              slug = ''gurtoy-doll-pink'', name = ''doll pink'', score = 0,
                              keywordList = [''doll'', ''pink'']\<rparr>],
      indexLastUpdated = 0\<rparr> =
     ([\<lparr>url = ''https://thegurtoys.com/products/gurtoy-doll-pink'',
        slug = ''gurtoy-doll-pink'', name = ''doll pink'', score = 30,
        keywordList = [''doll'', ''pink'']\<rparr>],
      \<lparr>productIndex = Some [\<lparr>url = ''https://thegurtoys.com/products/gurtoy-doll-pink'',
                              slug = ''gurtoy-doll-pink'', name = ''doll pink'', score = 0,
                              keywordList = [''doll'', ''pink'']\<rparr>],
      indexLastUpdated = 0\<rparr>)"
proof -
  let ?e = "\<lparr>url = ''https://thegurtoys.com/products/gurtoy-doll-pink'',
             slug = ''gurtoy-doll-pink'', name = ''doll pink'', score = 0,
             keywordList = [''doll'', ''pink'']\<rparr>"
  let ?st = "\<lparr>productIndex = Some [?e], indexLastUpdated = 0\<rparr>"
  have rebuild: "(productIndex initialIndexState = None \<or>
        INDEX_CACHE_TTL < 1000 - indexLastUpdated initialIndexState) \<and>
      (\<forall>line \<in> set (split_on (CHR 0x0A) ''no products today'').
          \<not> startsWith line urlPrefix)"
    by (simp add: initialIndexState_def startsWith_def urlPrefix_def)
  have cached: "productIndex ?st = Some [?e] \<and>
      \<not> INDEX_CACHE_TTL < 600000 - indexLastUpdated ?st"
    by (simp add: INDEX_CACHE_TTL_def)
  have ranked: "(if extractSearchTerms (toLowerCase ''doll'') = [] then []
          else sliceTo 3
                 (sortByScoreDesc
                    (filter (\<lambda>p. 0 < score p)
                       (scoreProducts (extractSearchTerms (toLowerCase ''doll'')) [?e])))) =
      [?e\<lparr>score := 30\<rparr>]"
    by code_simp
  note age = malformed_catalog_by_index_age
  from age [THEN conjunct1, rule_format, OF rebuild, THEN conjunct2]
  have one: "findRelevantProducts ''car'' ''no products today'' 3 1000 initialIndexState =
     ([], \<lparr>productIndex = Some [], indexLastUpdated = 1000\<rparr>)" .
  from age [THEN conjunct2, rule_format, OF cached, of "''doll''" "''no products today''" 3]
  have two: "findRelevantProducts ''doll'' ''no products today'' 3 600000 ?st =
     ([?e\<lparr>score := 30\<rparr>], ?st)"
    unfolding ranked .
  from one two show ?thesis
    by simp
qed

section \<open>Properties of the product matcher\<close>

lemma sliceTo_prefix: "prefix (sliceTo limit xs) xs"
  by (simp add: sliceTo_def take_is_prefix)

lemma length_sliceTo: "0 \<le> limit \<Longrightarrow> int (length (sliceTo limit xs)) \<le> limit"
  by (simp add: sliceTo_def)

lemma sliceTo_all: "int (length xs) \<le> limit \<Longrightarrow> sliceTo limit xs = xs"
  by (auto simp: sliceTo_def)

lemma set_sliceTo: "set (sliceTo limit xs) \<subseteq> set xs"
  by (simp add: sliceTo_def set_take_subset)

lemma sorted_sliceTo: "sorted_wrt R xs \<Longrightarrow> sorted_wrt R (sliceTo limit xs)"
  by (simp add: sliceTo_def)

lemma sorted_sortByScoreDesc: "sorted_wrt (\<lambda>a b. score b \<le> score a) (sortByScoreDesc ps)"
proof -
  have "sorted (map (\<lambda>p. - score p) (sort_key (\<lambda>p. - score p) ps))"
    by (rule sorted_sort_key)
  then show ?thesis
    by (simp add: sortByScoreDesc_def sorted_map)
qed

lemma set_sortByScoreDesc: "set (sortByScoreDesc ps) = set ps"
  by (simp add: sortByScoreDesc_def)

lemma sortByScoreDesc_stable:
  "filter (\<lambda>p. score p = k) (sortByScoreDesc ps) = filter (\<lambda>p. score p = k) ps"
  using sort_key_stable [of "\<lambda>p. - score p" "- k" ps]
  by (simp add: sortByScoreDesc_def)

lemma positive_ties_prefix:
  "prefix (filter (\<lambda>p. score p = k) (filter (\<lambda>p. 0 < score p) ps)) (filter (\<lambda>p. score p = (k::int)) ps)"
proof (cases "0 < k")
  case True
  then have "filter (\<lambda>p. score p = k) (filter (\<lambda>p. 0 < score p) ps) = filter (\<lambda>p. score p = k) ps"
    by (auto intro: filter_cong)
  then show ?thesis by simp
next
  case False
  then have "filter (\<lambda>p. score p = k) (filter (\<lambda>p. 0 < score p) ps) = []"
    by (auto simp: filter_empty_conv)
  then show ?thesis by simp
qed

lemma ranked_slice:
  fixes res :: "ProductMatch list"
  assumes "res = sliceTo limit (sortByScoreDesc (filter (\<lambda>p. 0 < score p) ps))"
  shows "(0 \<le> limit \<longrightarrow> int (length res) \<le> limit) \<and> (\<forall>p \<in> set res. 0 < score p) \<and>
    sorted_wrt (\<lambda>a b. score b \<le> score a) res \<and>
    (\<forall>k. prefix (filter (\<lambda>p. score p = k) res) (filter (\<lambda>p. score p = k) ps))"
proof (intro conjI impI allI ballI)
  show "int (length res) \<le> limit" if "0 \<le> limit"
    unfolding assms using that by (rule length_sliceTo)
  show "0 < score p" if "p \<in> set res" for p
    using that set_sliceTo [of limit "sortByScoreDesc (filter (\<lambda>p. 0 < score p) ps)"]
    unfolding assms by (auto simp: set_sortByScoreDesc)
  show "sorted_wrt (\<lambda>a b. score b \<le> score a) res"
    unfolding assms by (intro sorted_sliceTo sorted_sortByScoreDesc)
  show "prefix (filter (\<lambda>p. score p = k) res) (filter (\<lambda>p. score p = k) ps)" for k
  proof -
    have "prefix (filter (\<lambda>p. score p = k) res)
            (filter (\<lambda>p. score p = k) (sortByScoreDesc (filter (\<lambda>p. 0 < score p) ps)))"
      unfolding assms by (intro filter_mono_prefix sliceTo_prefix)
    also have "filter (\<lambda>p. score p = k) (sortByScoreDesc (filter (\<lambda>p. 0 < score p) ps)) =
            filter (\<lambda>p. score p = k) (filter (\<lambda>p. 0 < score p) ps)"
      by (rule sortByScoreDesc_stable)
    finally show ?thesis
      using positive_ties_prefix [of k ps] by (rule prefix_order.trans)
  qed
qed


lemma findRelevantProducts_cases:
  assumes "findRelevantProducts query productData limit now st = (res, st')"
  shows "st' = refreshIndex productData now st \<and>
         (if extractSearchTerms (toLowerCase query) = [] then res = []
          else res = sliceTo limit (sortByScoreDesc (filter (\<lambda>p. 0 < score p)
                       (scoreProducts (extractSearchTerms (toLowerCase query)) (indexEntries st')))))"
  using assms by (auto simp: findRelevantProducts_def Let_def split: if_splits)

text \<open>
  C1. For every query, catalog text, clock value and prior index state, and every limit
  (a number of entries, so not negative): the call returns at most limit entries; every
  returned entry has a score above 0; the result is in descending order of score; and
  the returned entries of any one score are the first ones of that score in the order of
  the (scored) index, so ties keep the index order.
\<close>

theorem findRelevantProducts_ranked:
  assumes "findRelevantProducts query productData limit now st = (res, st')"
  shows "(0 \<le> limit \<longrightarrow> int (length res) \<le> limit) \<and>
         (\<forall>p \<in> set res. 0 < score p) \<and>
         sorted_wrt (\<lambda>a b. score b \<le> score a) res \<and>
         (\<forall>k. prefix (filter (\<lambda>p. score p = k) res)
                 (filter (\<lambda>p. score p = k)
                    (scoreProducts (extractSearchTerms (toLowerCase query)) (indexEntries st'))))"
proof (cases "extractSearchTerms (toLowerCase query) = []")
  case True
  with findRelevantProducts_cases [OF assms] have "res = []"
    by simp
  then show ?thesis
    by simp
next
  case False
  with findRelevantProducts_cases [OF assms]
  have "res = sliceTo limit (sortByScoreDesc (filter (\<lambda>p. 0 < score p)
                 (scoreProducts (extractSearchTerms (toLowerCase query)) (indexEntries st'))))"
    by simp
  then show ?thesis
    by (rule ranked_slice)
qed

theorem findRelevantProducts_ranked_witness:
  "findRelevantProducts ''red car''
      (''https://thegurtoys.com/products/gurtoy-car'' @ [CHR 0x0A] @
       ''https://thegurtoys.com/products/gurtoy-doll-pink'' @ [CHR 0x0A] @
       ''https://thegurtoys.com/products/gurtoy-car-red'' @ [CHR 0x0A] @
       ''https://thegurtoys.com/products/gurtoy-jeep'') 2 0 initialIndexState =
     ([\<lparr>url = ''https://thegurtoys.com/products/gurtoy-car-red'', slug = ''gurtoy-car-red'',
        name = ''car red'', score = 58, keywordList = [''car'', ''red'']\<rparr>,
       \<lparr>url = ''https://thegurtoys.com/products/gurtoy-car'', slug = ''gurtoy-car'',
        name = ''car'', score = 30, keywordList = [''car'']\<rparr>],
      \<lparr>productIndex = Some
         [\<lparr>url = ''https://thegurtoys.com/products/gurtoy-car'', slug = ''gurtoy-car'',
           name = ''car'', score = 0, keywordList = [''car'']\<rparr>,
          \<lparr>url = ''https://thegurtoys.com/products/gurtoy-doll-pink'', slug = ''gurtoy-doll-pink'',
           name = ''doll pink'', score = 0, keywordList = [''doll'', ''pink'']\<rparr>,
          \<lparr>url = ''https://thegurtoys.com/products/gurtoy-car-red'', slug = ''gurtoy-car-red'',
           name = ''car red'', score = 0, keywordList = [''car'', ''red'']\<rparr>,
          \<lparr>url = ''https://thegurtoys.com/products/gurtoy-jeep'', slug = ''gurtoy-jeep'',
           name = ''jeep'', score = 0, keywordList = [''jeep'']\<rparr>],
        indexLastUpdated = 0\<rparr>) \<and>
   int (length
     [\<lparr>url = ''https://thegurtoys.com/products/gurtoy-car-red'', slug = ''gurtoy-car-red'',
        name = ''car red'', score = 58, keywordList = [''car'', ''red'']\<rparr>,
      \<lparr>url = ''https://thegurtoys.com/products/gurtoy-car'', slug = ''gurtoy-car'',
        name = ''car'', score = 30, keywordList = [''car'']\<rparr>]) \<le> 2 \<and>
   sorted_wrt (\<lambda>a b. score b \<le> score a)
     [\<lparr>url = ''https://thegurtoys.com/products/gurtoy-car-red'', slug = ''gurtoy-car-red'',
        name = ''car red'', score = 58, keywordList = [''car'', ''red'']\<rparr>,
      \<lparr>url = ''https://thegurtoys.com/products/gurtoy-car'', slug = ''gurtoy-car'',
        name = ''car'', score = 30, keywordList = [''car'']\<rparr>]"
  (is "?run \<and> ?len \<and> ?sorted")
proof -
  have run: ?run
    by code_simp
  note ranked = findRelevantProducts_ranked [OF run]
  from ranked [THEN conjunct1] have len: ?len
    by (simp only: order_refl simp_thms)
  from ranked [THEN conjunct2, THEN conjunct2, THEN conjunct1] have sorted: ?sorted .
  from run len sorted show ?thesis
    by (intro conjI)
qed

section \<open>The popularity bonus\<close>

lemma termStep_ge: "sc \<le> termStep p sc t"
  by (simp add: termStep_def Let_def)

lemma popularStep_ge: "sc \<le> popularStep p sc w"
  by (simp add: popularStep_def)

lemma foldl_termStep_ge: "sc \<le> foldl (termStep p) sc ts"
proof (induction ts arbitrary: sc)
  case Nil
  show ?case by simp
next
  case (Cons t ts)
  have "sc \<le> termStep p sc t" by (rule termStep_ge)
  also have "\<dots> \<le> foldl (termStep p) (termStep p sc t) ts" by (rule Cons.IH)
  finally show ?case by simp
qed

lemma foldl_popularStep_ge: "sc \<le> foldl (popularStep p) sc ws"
proof (induction ws arbitrary: sc)
  case Nil
  show ?case by simp
next
  case (Cons w ws)
  have "sc \<le> popularStep p sc w" by (rule popularStep_ge)
  also have "\<dots> \<le> foldl (popularStep p) (popularStep p sc w) ws" by (rule Cons.IH)
  finally show ?case by simp
qed

lemma popular_bonus:
  assumes "popular \<in> set ws" and "includesStr (productText p) popular"
  shows "sc + 2 \<le> foldl (popularStep p) sc ws"
  using assms(1)
proof (induction ws arbitrary: sc)
  case Nil
  then show ?case by simp
next
  case (Cons w ws)
  show ?case
  proof (cases "popular = w")
    case True
    with assms(2) have "popularStep p sc w = sc + 2"
      by (simp add: popularStep_def)
    with foldl_popularStep_ge [of "popularStep p sc w" p ws] show ?thesis
      by simp
  next
    case False
    with Cons.prems have "popular \<in> set ws" by simp
    then have "popularStep p sc w + 2 \<le> foldl (popularStep p) (popularStep p sc w) ws"
      by (rule Cons.IH)
    with popularStep_ge [of sc p w] show ?thesis
      by simp
  qed
qed

text \<open>
  C10. When the text of an entry (name and keywords, in lower case) contains one of the
  popular words, the second loop of the scorer adds at least 2 to whatever the search
  terms have given, so the score is at least 2 for every list of search terms. The
  entry therefore passes the filter score > 0, and it is in the result of
  findRelevantProducts whenever the query has a search term, the entry is in the index
  the call uses, and limit does not cut the result.
\<close>

theorem popularity_bonus_retains:
  assumes "popular \<in> set popularProducts" and "includesStr (productText p) popular"
  shows "sc + 2 \<le> foldl (popularStep p) sc popularProducts \<and>
         2 \<le> calculateRelevanceScore searchTerms p \<and>
         (p \<in> set entries \<longrightarrow>
            p\<lparr>score := calculateRelevanceScore searchTerms p\<rparr>
              \<in> set (filter (\<lambda>q. 0 < score q) (scoreProducts searchTerms entries))) \<and>
         (findRelevantProducts query productData limit now st = (res, st') \<and>
          extractSearchTerms (toLowerCase query) \<noteq> [] \<and>
          p \<in> set (indexEntries st') \<and> int (length (indexEntries st')) \<le> limit \<longrightarrow>
            p\<lparr>score := calculateRelevanceScore (extractSearchTerms (toLowerCase query)) p\<rparr>
              \<in> set res)"
proof (intro conjI impI)
  show bonus: "sc + 2 \<le> foldl (popularStep p) sc popularProducts" for sc
    using assms by (rule popular_bonus)
  show total: "2 \<le> calculateRelevanceScore ts p" for ts
    using bonus [of "foldl (termStep p) 0 ts"] foldl_termStep_ge [of 0 p ts]
    by (simp add: calculateRelevanceScore_def)
  show kept: "p\<lparr>score := calculateRelevanceScore ts p\<rparr>
              \<in> set (filter (\<lambda>q. 0 < score q) (scoreProducts ts es))"
    if "p \<in> set es" for ts es
    using that total [of ts] by (auto simp: scoreProducts_def)
  assume run: "findRelevantProducts query productData limit now st = (res, st') \<and>
          extractSearchTerms (toLowerCase query) \<noteq> [] \<and>
          p \<in> set (indexEntries st') \<and> int (length (indexEntries st')) \<le> limit"
  let ?ts = "extractSearchTerms (toLowerCase query)"
  let ?kept = "filter (\<lambda>q. 0 < score q) (scoreProducts ?ts (indexEntries st'))"
  from run findRelevantProducts_cases [of query productData limit now st res st']
  have res: "res = sliceTo limit (sortByScoreDesc ?kept)"
    by simp
  have "length ?kept \<le> length (indexEntries st')"
    using length_filter_le [of _ "scoreProducts ?ts (indexEntries st')"]
    by (simp add: scoreProducts_def)
  with run have "int (length (sortByScoreDesc ?kept)) \<le> limit"
    by (simp add: sortByScoreDesc_def)
  then have "res = sortByScoreDesc ?kept"
    unfolding res by (rule sliceTo_all)
  with run kept [of "indexEntries st'" ?ts]
  show "p\<lparr>score := calculateRelevanceScore ?ts p\<rparr> \<in> set res"
    by (simp add: set_sortByScoreDesc)
qed

theorem popularity_bonus_retains_witness:
  "''car'' \<in> set popularProducts \<and>
   includesStr (productText \<lparr>url = ''https://thegurtoys.com/products/gurtoy-car'',
      slug = ''gurtoy-car'', name = ''car'', score = 0, keywordList = [''car'']\<rparr>) ''car'' \<and>
   findRelevantProducts ''jeep''
      (''https://thegurtoys.com/products/gurtoy-car'' @ [CHR 0x0A] @
       ''https://thegurtoys.com/products/gurtoy-jeep'') 3 0 initialIndexState =
     ([\<lparr>url = ''https://thegurtoys.com/products/gurtoy-jeep'', slug = ''gurtoy-jeep'',
        name = ''jeep'', score = 28, keywordList = [''jeep'']\<rparr>,
       \<lparr>url = ''https://thegurtoys.com/products/gurtoy-car'', slug = ''gurtoy-car'',
        name = ''car'', score = 2, keywordList = [''car'']\<rparr>],
      \<lparr>productIndex = Some
         [\<lparr>url = ''https://thegurtoys.com/products/gurtoy-car'', slug = ''gurtoy-car'',
           name = ''car'', score = 0, keywordList = [''car'']\<rparr>,
          \<lparr>url = ''https://thegurtoys.com/products/gurtoy-jeep'', slug = ''gurtoy-jeep'',
           name = ''jeep'', score = 0, keywordList = [''jeep'']\<rparr>],
        indexLastUpdated = 0\<rparr>) \<and>
   2 \<le> calculateRelevanceScore (extractSearchTerms (toLowerCase ''jeep''))
          \<lparr>url = ''https://thegurtoys.com/products/gurtoy-car'',
           slug = ''gurtoy-car'', name = ''car'', score = 0, keywordList = [''car'']\<rparr> \<and>
   \<lparr>url = ''https://thegurtoys.com/products/gurtoy-car'', slug = ''gurtoy-car'', name = ''car'',
     score = 0, keywordList = [''car'']\<rparr>
     \<lparr>score := calculateRelevanceScore (extractSearchTerms (toLowerCase ''jeep''))
        \<lparr>url = ''https://thegurtoys.com/products/gurtoy-car'',
           slug = ''gurtoy-car'', name = ''car'', score = 0, keywordList = [''car'']\<rparr>\<rparr>
     \<in> set [\<lparr>url = ''https://thegurtoys.com/products/gurtoy-jeep'', slug = ''gurtoy-jeep'',
        name = ''jeep'', score = 28, keywordList = [''jeep'']\<rparr>,
       \<lparr>url = ''https://thegurtoys.com/products/gurtoy-car'', slug = ''gurtoy-car'',
        name = ''car'', score = 2, keywordList = [''car'']\<rparr>]"
  (is "?pop \<and> ?inc \<and> ?run \<and> ?two \<and> ?mem")
proof -
  have pop: ?pop and inc: ?inc and run: ?run
    by code_simp+
  have terms: "extractSearchTerms (toLowerCase ''jeep'') \<noteq> []"
    by code_simp
  have inIndex: "\<lparr>url = ''https://thegurtoys.com/products/gurtoy-car'', slug = ''gurtoy-car'',
      name = ''car'', score = 0, keywordList = [''car'']\<rparr> \<in> set (indexEntries
      \<lparr>productIndex = Some
         [\<lparr>url = ''https://thegurtoys.com/products/gurtoy-car'', slug = ''gurtoy-car'',
           name = ''car'', score = 0, keywordList = [''car'']\<rparr>,
          \<lparr>url = ''https://thegurtoys.com/products/gurtoy-jeep'', slug = ''gurtoy-jeep'',
           name = ''jeep'', score = 0, keywordList = [''jeep'']\<rparr>],
        indexLastUpdated = 0\<rparr>)"
    by (simp add: indexEntries_def)
  have fits: "int (length (indexEntries
      \<lparr>productIndex = Some
         [\<lparr>url = ''https://thegurtoys.com/products/gurtoy-car'', slug = ''gurtoy-car'',
           name = ''car'', score = 0, keywordList = [''car'']\<rparr>,
          \<lparr>url = ''https://thegurtoys.com/products/gurtoy-jeep'', slug = ''gurtoy-jeep'',
           name = ''jeep'', score = 0, keywordList = [''jeep'']\<rparr>],
        indexLastUpdated = 0\<rparr>)) \<le> 3"
    by (simp add: indexEntries_def)
  note bonus = popularity_bonus_retains [OF pop inc]
  have two: ?two
    by (rule bonus [THEN conjunct2, THEN conjunct1])
  have mem: ?mem
    using bonus [THEN conjunct2, THEN conjunct2, THEN conjunct2, rule_format,
                 OF conjI [OF run conjI [OF terms conjI [OF inIndex fits]]]] .
  from pop inc run two mem show ?thesis
    by (intro conjI)
qed

section \<open>Properties of the conversation memory formatter\<close>





end
